theory Spec2Isabelle
  imports Main
begin

section \<open>JavaScript values and errors\<close>

text \<open>
  The values that travel through \<^verbatim>\<open>src/socket.js\<close>: event payloads, response bodies and
  the object literals handed to the state store. An object is an association list of its
  own properties. Numbers are the integers plus NaN (fractions are not modelled; they are
  truthy and no code path looks at them). \<open>JBuiltin\<close> stands for a method inherited from
  a prototype: of the property names the file reads, only \<^verbatim>\<open>bold\<close> exists on one
  (\<^verbatim>\<open>String.prototype.bold\<close>).
\<close>

datatype jsval =
    JUndefined
  | JNull
  | JBool bool
  | JNum int
  | JNaN
  | JStr string
  | JArr "jsval list"
  | JObj "(string \<times> jsval) list"
  | JBuiltin string

datatype js_error = Error string | TypeError string

fun error_name :: "js_error \<Rightarrow> string" where
  "error_name (Error m) = ''Error''"
| "error_name (TypeError m) = ''TypeError''"

fun message :: "js_error \<Rightarrow> string" where
  "message (Error m) = m"
| "message (TypeError m) = m"

text \<open>\<^verbatim>\<open>Error.prototype.toString\<close>: the name alone when the message is empty.\<close>

definition toString :: "js_error \<Rightarrow> string" where
  "toString e = (if message e = [] then error_name e else error_name e @ '': '' @ message e)"

text \<open>A number in a template literal: \<^verbatim>\<open>`${attempt}`\<close> prints the decimal digits.\<close>

definition digit_char :: "nat \<Rightarrow> char" where
  "digit_char d = char_of (48 + d)"

function show_nat :: "nat \<Rightarrow> string" where
  "show_nat n = (if n < 10 then [digit_char n] else show_nat (n div 10) @ [digit_char (n mod 10)])"
  by pat_completeness auto
termination
  by (relation "measure id") auto

declare show_nat.simps [simp del]

text \<open>\<^verbatim>\<open>!v\<close> is true on the falsy values.\<close>

fun is_falsy :: "jsval \<Rightarrow> bool" where
  "is_falsy JUndefined = True"
| "is_falsy JNull = True"
| "is_falsy (JBool b) = (\<not> b)"
| "is_falsy (JNum n) = (n = 0)"
| "is_falsy JNaN = True"
| "is_falsy (JStr s) = (s = [])"
| "is_falsy (JArr xs) = False"
| "is_falsy (JObj fs) = False"
| "is_falsy (JBuiltin f) = False"

text \<open>Reading property \<open>k\<close> of a value that is neither null nor undefined.\<close>

fun js_get :: "jsval \<Rightarrow> string \<Rightarrow> jsval" where
  "js_get (JObj fs) k = (case map_of fs k of Some v \<Rightarrow> v | None \<Rightarrow> JUndefined)"
| "js_get (JStr s) k = (if k = ''bold'' then JBuiltin ''String.prototype.bold'' else JUndefined)"
| "js_get v k = JUndefined"

section \<open>What the platform supplies\<close>

record url =
  origin :: string
  pathname :: string

text \<open>
  \<^verbatim>\<open>new URL(apiUrl)\<close> and the engine's TypeError for destructuring null or undefined are
  not code of this repository: they are parameters. \<open>parseURL\<close> returns the parsed URL
  or the error the constructor throws; \<open>destructure_error k v\<close> is the error the engine
  raises when a pattern whose first property is \<open>k\<close> is matched against \<open>v\<close>.
\<close>

record platform =
  parseURL :: "string \<Rightarrow> js_error + url"
  destructure_error :: "string \<Rightarrow> jsval \<Rightarrow> js_error"

text \<open>
  \<^verbatim>\<open>const { k, ... } = v\<close>: throws on null and undefined, otherwise gives access to
  the properties of \<open>v\<close>.
\<close>

fun destructure :: "platform \<Rightarrow> string \<Rightarrow> jsval \<Rightarrow> js_error + (string \<Rightarrow> jsval)" where
  "destructure pf k JUndefined = Inl (destructure_error pf k JUndefined)"
| "destructure pf k JNull = Inl (destructure_error pf k JNull)"
| "destructure pf k v = Inr (js_get v)"

section \<open>The module's surroundings\<close>

datatype InstanceStatus = Connecting | Ok | Disconnected | ConnectionFailure | UnknownError

text \<open>
  Modelled from the spec: \<^verbatim>\<open>actions.js\<close> is not among the sources; section 6 of the
  spec names the three request kinds \<^verbatim>\<open>actionIdType\<close> provides.
\<close>

datatype actionIdType = get_room | get_status | get_timer

text \<open>
  Every call the file makes on the instance (\<^verbatim>\<open>log\<close>, \<^verbatim>\<open>updateStatus\<close>), on the
  state store of \<^verbatim>\<open>state.js\<close> and on the API client, in the order made. A
  \<open>Send\<close> carries the number of the request, by which its promise is settled later.
\<close>

datatype effect =
    Log string string
  | UpdateStatus InstanceStatus
  | UpdateRoomState jsval
  | UpdatePlaybackState jsval
  | UpdateTimerState jsval
  | UpdateMessageState jsval
  | UpdateFlashingState jsval
  | Send nat actionIdType jsval

record config =
  apiUrl :: string
  roomId :: string
  apiKey :: string

record ModuleInstance =
  config :: "config option"

record io_auth =
  room_id :: string
  api_key :: string

record io_opts =
  path :: string
  auth :: io_auth
  reconnectionAttempts :: nat
  reconnectionDelayMax :: nat

text \<open>
  A Transport Handle: what \<^verbatim>\<open>io(url.origin, opts)\<close> was called with, and whether the
  handle is open (\<^verbatim>\<open>io\<close> opens it, \<^verbatim>\<open>connect()\<close> opens it, \<^verbatim>\<open>disconnect()\<close>
  closes it).
\<close>

record handle =
  h_origin :: string
  h_opts :: io_opts
  is_open :: bool

text \<open>The promise chains the file attaches to a request.\<close>

datatype chain = RoomChain | StatusChain | TimerChain

datatype outcome = Rejected js_error | Resolved jsval

text \<open>
  The state: the module-level variable \<^verbatim>\<open>socket\<close> (an index into the handles created
  so far), the handles, the calls made so far, the requests in flight with the chain
  attached to each, and the number of requests sent.
\<close>

record world =
  socket :: "nat option"
  handles :: "handle list"
  trace :: "effect list"
  pending :: "(nat \<times> chain) list"
  sent :: nat

definition init_world :: world where
  "init_world = \<lparr>socket = None, handles = [], trace = [], pending = [], sent = 0\<rparr>"

definition perform :: "effect \<Rightarrow> world \<Rightarrow> world" where
  "perform e w = w\<lparr>trace := trace w @ [e]\<rparr>"

definition log :: "string \<Rightarrow> string \<Rightarrow> world \<Rightarrow> world" where
  "log level msg = perform (Log level msg)"

definition updateStatus :: "InstanceStatus \<Rightarrow> world \<Rightarrow> world" where
  "updateStatus s = perform (UpdateStatus s)"

definition updateRoomState :: "jsval \<Rightarrow> world \<Rightarrow> world" where
  "updateRoomState v = perform (UpdateRoomState v)"

definition updatePlaybackState :: "jsval \<Rightarrow> world \<Rightarrow> world" where
  "updatePlaybackState v = perform (UpdatePlaybackState v)"

definition updateTimerState :: "jsval \<Rightarrow> world \<Rightarrow> world" where
  "updateTimerState v = perform (UpdateTimerState v)"

definition updateMessageState :: "jsval \<Rightarrow> world \<Rightarrow> world" where
  "updateMessageState v = perform (UpdateMessageState v)"

definition updateFlashingState :: "jsval \<Rightarrow> world \<Rightarrow> world" where
  "updateFlashingState v = perform (UpdateFlashingState v)"

text \<open>
  \<^verbatim>\<open>instance.apiClient.send(kind, params).then(...).catch(...)\<close>: the call is recorded
  and the request waits, with its chain, for its promise to settle.
\<close>

definition send :: "actionIdType \<Rightarrow> jsval \<Rightarrow> chain \<Rightarrow> world \<Rightarrow> world" where
  "send kind params k w =
     w\<lparr>trace := trace w @ [Send (sent w) kind params],
       pending := pending w @ [(sent w, k)],
       sent := Suc (sent w)\<rparr>"

section \<open>The transport: \<^verbatim>\<open>io\<close>, \<^verbatim>\<open>connect\<close>, \<^verbatim>\<open>disconnect\<close>\<close>

text \<open>
  \<^verbatim>\<open>io(origin, opts)\<close> builds a new handle and, \<^verbatim>\<open>autoConnect\<close> being left at its
  default, opens it. The result is the handle's index.
\<close>

definition io :: "string \<Rightarrow> io_opts \<Rightarrow> world \<Rightarrow> nat \<times> world" where
  "io orig opts w =
     (length (handles w),
      w\<lparr>handles := handles w @ [\<lparr>h_origin = orig, h_opts = opts, is_open = True\<rparr>]\<rparr>)"

definition set_open :: "nat \<Rightarrow> bool \<Rightarrow> world \<Rightarrow> world" where
  "set_open h b w =
     (if h < length (handles w)
      then w\<lparr>handles := (handles w)[h := (handles w ! h)\<lparr>is_open := b\<rparr>]\<rparr>
      else w)"

definition socket_disconnect :: "nat \<Rightarrow> world \<Rightarrow> world" where
  "socket_disconnect h = set_open h False"

definition socket_connect :: "nat \<Rightarrow> world \<Rightarrow> world" where
  "socket_connect h = set_open h True"

section \<open>\<^verbatim>\<open>getTimerAndUpdateState\<close> and the promise chains\<close>

text \<open>
  The \<^verbatim>\<open>instance\<close> argument of the source only names the sinks the calls go to; the
  calls are recorded in the one trace. A \<^verbatim>\<open>then\<close> callback returns \<open>Inl\<close> when it
  throws, which the \<^verbatim>\<open>catch\<close> of its chain receives.
\<close>

definition catch_log :: "js_error \<Rightarrow> world \<Rightarrow> world" where
  "catch_log e w = log ''error'' (toString e) w"

definition getTimerAndUpdateState :: "jsval \<Rightarrow> world \<Rightarrow> world" where
  "getTimerAndUpdateState timer_id w =
     send get_timer (JObj [(''timer_id'', timer_id)]) TimerChain w"

definition timer_then :: "platform \<Rightarrow> jsval \<Rightarrow> world \<Rightarrow> js_error + world" where
  "timer_then pf r w =
     (case destructure pf ''data'' r of
        Inl e \<Rightarrow> Inl e
      | Inr response \<Rightarrow>
          (case destructure pf ''name'' (response ''data'') of
             Inl e \<Rightarrow> Inl e
           | Inr data \<Rightarrow>
               Inr (updateTimerState
                      (JObj [(''name'', data ''name''),
                             (''speaker'', data ''speaker''),
                             (''notes'', data ''notes''),
                             (''duration'', data ''duration''),
                             (''wrap_up_yellow'', data ''wrap_up_yellow''),
                             (''wrap_up_red'', data ''wrap_up_red'')]) w)))"

definition timer_chain :: "platform \<Rightarrow> outcome \<Rightarrow> world \<Rightarrow> world" where
  "timer_chain pf oc w =
     (case oc of
        Rejected e \<Rightarrow> catch_log e w
      | Resolved r \<Rightarrow> (case timer_then pf r w of Inl e \<Rightarrow> catch_log e w | Inr w' \<Rightarrow> w'))"

definition room_then :: "platform \<Rightarrow> jsval \<Rightarrow> world \<Rightarrow> js_error + world" where
  "room_then pf r w =
     (case destructure pf ''data'' r of
        Inl e \<Rightarrow> Inl e
      | Inr response \<Rightarrow>
          (case destructure pf ''_id'' (response ''data'') of
             Inl e \<Rightarrow> Inl e
           | Inr data \<Rightarrow>
               Inr (updateRoomState
                      (JObj [(''roomId'', data ''_id''),
                             (''roomName'', data ''name''),
                             (''roomBlackout'', data ''blackout''),
                             (''roomFocus'', data ''focus_message'')]) w)))"

definition room_chain :: "platform \<Rightarrow> outcome \<Rightarrow> world \<Rightarrow> world" where
  "room_chain pf oc w =
     (case oc of
        Rejected e \<Rightarrow> catch_log e w
      | Resolved r \<Rightarrow> (case room_then pf r w of Inl e \<Rightarrow> catch_log e w | Inr w' \<Rightarrow> w'))"

text \<open>The first \<^verbatim>\<open>then\<close> of the status chain returns \<^verbatim>\<open>timer_id\<close> to the second.\<close>

definition status_then1 :: "platform \<Rightarrow> jsval \<Rightarrow> world \<Rightarrow> js_error + jsval \<times> world" where
  "status_then1 pf r w =
     (case destructure pf ''data'' r of
        Inl e \<Rightarrow> Inl e
      | Inr response \<Rightarrow>
          (case destructure pf ''timer_id'' (response ''data'') of
             Inl e \<Rightarrow> Inl e
           | Inr data \<Rightarrow>
               Inr (data ''timer_id'',
                    updatePlaybackState
                      (JObj [(''currentTimerId'', data ''timer_id''),
                             (''isRunning'', data ''running''),
                             (''kickoff'', data ''start''),
                             (''deadline'', data ''finish''),
                             (''lastStop'', data ''pause'')]) w)))"

definition status_then2 :: "jsval \<Rightarrow> world \<Rightarrow> world" where
  "status_then2 timer_id w =
     (if is_falsy timer_id then w else getTimerAndUpdateState timer_id w)"

text \<open>
  The two callbacks run in successive microtasks; nothing they read can change in
  between, and the model runs them in one step.
\<close>

definition status_chain :: "platform \<Rightarrow> outcome \<Rightarrow> world \<Rightarrow> world" where
  "status_chain pf oc w =
     (case oc of
        Rejected e \<Rightarrow> catch_log e w
      | Resolved r \<Rightarrow>
          (case status_then1 pf r w of
             Inl e \<Rightarrow> catch_log e w
           | Inr (timer_id, w') \<Rightarrow> status_then2 timer_id w'))"

fun run_chain :: "platform \<Rightarrow> chain \<Rightarrow> outcome \<Rightarrow> world \<Rightarrow> world" where
  "run_chain pf RoomChain oc w = room_chain pf oc w"
| "run_chain pf StatusChain oc w = status_chain pf oc w"
| "run_chain pf TimerChain oc w = timer_chain pf oc w"

text \<open>
  The promise of request \<open>rid\<close> settles: the request leaves the requests in flight and
  its chain runs. A promise settles once; settling a request not in flight does nothing.
\<close>

definition settle :: "platform \<Rightarrow> nat \<Rightarrow> outcome \<Rightarrow> world \<Rightarrow> world" where
  "settle pf rid oc w =
     (case map_of (pending w) rid of
        None \<Rightarrow> w
      | Some k \<Rightarrow> run_chain pf k oc (w\<lparr>pending := filter (\<lambda>p. fst p \<noteq> rid) (pending w)\<rparr>))"

section \<open>The listeners \<^verbatim>\<open>socketStart\<close> registers\<close>

text \<open>
  What the transport can emit on a handle: the socket's and the manager's own events, with
  the argument the listener reads (an error, the reason, the attempt number), and the four
  Stagetimer events of \<^verbatim>\<open>stagetimerEvents\<close> with their payload.
\<close>

datatype transport_signal =
    Connect
  | ConnectError js_error
  | Disconnect string
  | SockError js_error
  | ReconnectAttempt nat
  | Reconnect nat
  | ReconnectFailed
  | ManagerError js_error

datatype push_event =
    PlaybackStatus jsval
  | Room jsval
  | Message jsval
  | Flash jsval

datatype signal = Transport transport_signal | Push push_event

definition on_connect :: "world \<Rightarrow> world" where
  "on_connect w =
     (let w = log ''info'' ''Connected!'' w;
          w = updateStatus Ok w;
          w = send get_room (JObj []) RoomChain w;
          w = send get_status (JObj []) StatusChain w
      in w)"

definition on_connect_error :: "js_error \<Rightarrow> world \<Rightarrow> world" where
  "on_connect_error error w =
     (let w = log ''warn'' (''Failed to connect! ('' @ message error @ '')'') w
      in updateStatus ConnectionFailure w)"

definition on_disconnect :: "string \<Rightarrow> world \<Rightarrow> world" where
  "on_disconnect reason w =
     (if reason = ''io client disconnect'' then w
      else let w = log ''warn'' (''Disconnected! Reason: '' @ reason) w
           in updateStatus Disconnected w)"

definition on_error :: "js_error \<Rightarrow> world \<Rightarrow> world" where
  "on_error error w =
     (let w = log ''error'' (''Unexpected error: '' @ message error) w
      in updateStatus UnknownError w)"

definition on_reconnect_attempt :: "nat \<Rightarrow> world \<Rightarrow> world" where
  "on_reconnect_attempt attempt w =
     (let w = log ''warn'' (''Reconnecting... (Attempt #'' @ show_nat attempt @ '')'') w
      in updateStatus Connecting w)"

definition on_reconnect :: "nat \<Rightarrow> world \<Rightarrow> world" where
  "on_reconnect attempt w =
     (let w = log ''info'' (''Reconnected on attempt #'' @ show_nat attempt @ ''!'') w
      in updateStatus Ok w)"

definition on_reconnect_failed :: "world \<Rightarrow> world" where
  "on_reconnect_failed w =
     (let w = log ''error'' ''Unable to connect to Stagetimer.io!'' w
      in updateStatus ConnectionFailure w)"

definition on_manager_error :: "js_error \<Rightarrow> world \<Rightarrow> world" where
  "on_manager_error error w =
     log ''debug'' (''[Socket manager] Unexpected error: '' @ toString error) w"

text \<open>
  The listeners of the Stagetimer events destructure the payload after their log call;
  an exception there leaves the listener (\<open>Some e\<close>) with the log call made.
\<close>

definition on_playback_status :: "platform \<Rightarrow> jsval \<Rightarrow> world \<Rightarrow> js_error option \<times> world" where
  "on_playback_status pf payload w =
     (let w = log ''debug'' ''Event: playback_status'' w
      in case destructure pf ''timer_id'' payload of
           Inl e \<Rightarrow> (Some e, w)
         | Inr p \<Rightarrow>
             (let w = updatePlaybackState
                        (JObj [(''currentTimerId'', p ''timer_id''),
                               (''isRunning'', p ''running''),
                               (''kickoff'', p ''start''),
                               (''deadline'', p ''finish''),
                               (''lastStop'', p ''pause'')]) w
              in (None, getTimerAndUpdateState (p ''timer_id'') w)))"

definition on_room :: "platform \<Rightarrow> jsval \<Rightarrow> world \<Rightarrow> js_error option \<times> world" where
  "on_room pf payload w =
     (let w = log ''debug'' ''Event: room'' w
      in case destructure pf ''blackout'' payload of
           Inl e \<Rightarrow> (Some e, w)
         | Inr p \<Rightarrow>
             (None, updateRoomState
                      (JObj [(''roomBlackout'', p ''blackout''),
                             (''roomFocus'', p ''focus_message'')]) w))"

definition on_message :: "platform \<Rightarrow> jsval \<Rightarrow> world \<Rightarrow> js_error option \<times> world" where
  "on_message pf payload w =
     (let w = log ''debug'' ''Event: message'' w
      in case destructure pf ''showing'' payload of
           Inl e \<Rightarrow> (Some e, w)
         | Inr p \<Rightarrow>
             (None, updateMessageState
                      (JObj [(''showing'', p ''showing''),
                             (''text'', p ''text''),
                             (''color'', p ''color''),
                             (''bold'', p ''bold''),
                             (''uppercase'', p ''uppercase'')]) w))"

definition on_flash :: "platform \<Rightarrow> jsval \<Rightarrow> world \<Rightarrow> js_error option \<times> world" where
  "on_flash pf payload w =
     (let w = log ''debug'' ''Event: flash'' w
      in case destructure pf ''count'' payload of
           Inl e \<Rightarrow> (Some e, w)
         | Inr p \<Rightarrow> (None, updateFlashingState (p ''count'') w))"

fun on_transport :: "transport_signal \<Rightarrow> world \<Rightarrow> world" where
  "on_transport Connect w = on_connect w"
| "on_transport (ConnectError e) w = on_connect_error e w"
| "on_transport (Disconnect reason) w = on_disconnect reason w"
| "on_transport (SockError e) w = on_error e w"
| "on_transport (ReconnectAttempt n) w = on_reconnect_attempt n w"
| "on_transport (Reconnect n) w = on_reconnect n w"
| "on_transport ReconnectFailed w = on_reconnect_failed w"
| "on_transport (ManagerError e) w = on_manager_error e w"

fun on_push :: "platform \<Rightarrow> push_event \<Rightarrow> world \<Rightarrow> js_error option \<times> world" where
  "on_push pf (PlaybackStatus payload) w = on_playback_status pf payload w"
| "on_push pf (Room payload) w = on_room pf payload w"
| "on_push pf (Message payload) w = on_message pf payload w"
| "on_push pf (Flash payload) w = on_flash pf payload w"

text \<open>
  \<^verbatim>\<open>socketStart\<close> registers one listener per event on the handle it has just created,
  and nothing else registers or removes one: a handle that exists has exactly these
  listeners, so a signal on it runs the one listener of its event.
\<close>

definition emit :: "platform \<Rightarrow> nat \<Rightarrow> signal \<Rightarrow> world \<Rightarrow> js_error option \<times> world" where
  "emit pf h s w =
     (if h < length (handles w)
      then (case s of Transport t \<Rightarrow> (None, on_transport t w) | Push e \<Rightarrow> on_push pf e w)
      else (None, w))"

section \<open>\<^verbatim>\<open>socketStop\<close> and \<^verbatim>\<open>socketStart\<close>\<close>

definition socketStop :: "world \<Rightarrow> world" where
  "socketStop w = (case socket w of None \<Rightarrow> w | Some h \<Rightarrow> socket_disconnect h w)"

text \<open>
  \<open>Inl\<close> is an exception thrown to the caller. Both throws come before the first
  effect, so the state is the caller's unchanged one.
\<close>

definition socketStart :: "platform \<Rightarrow> ModuleInstance option \<Rightarrow> world \<Rightarrow> js_error + world" where
  "socketStart pf inst w =
     (case inst of
        None \<Rightarrow> Inl (Error ''Module instance required'')
      | Some i \<Rightarrow>
          (case config i of
             None \<Rightarrow> Inl (Error ''Module instance required'')
           | Some c \<Rightarrow>
               (case parseURL pf (apiUrl c) of
                  Inl e \<Rightarrow> Inl e
                | Inr u \<Rightarrow>
                    (let w = socketStop w;
                         w = log ''info'' ''Connecting to Stagetimer.io...'' w;
                         w = updateStatus Connecting w;
                         (h, w) = io (origin u)
                                    \<lparr>path = pathname u @ ''socket.io'',
                                     auth = \<lparr>room_id = roomId c, api_key = apiKey c\<rparr>,
                                     reconnectionAttempts = 5,
                                     reconnectionDelayMax = 10000\<rparr> w;
                         w = w\<lparr>socket := Some h\<rparr>
                     in Inr (socket_connect h w)))))"

section \<open>Runs\<close>

text \<open>
  What can happen to the module: a call of \<^verbatim>\<open>socketStart\<close> or \<^verbatim>\<open>socketStop\<close>, a
  signal on a handle, a promise settling. A step gives the exception that left the call
  or the listener, if any, and the next state.
\<close>

datatype input =
    Start "ModuleInstance option"
  | Stop
  | Emit nat signal
  | Settle nat outcome

fun step :: "platform \<Rightarrow> input \<Rightarrow> world \<Rightarrow> js_error option \<times> world" where
  "step pf (Start inst) w = (case socketStart pf inst w of Inl e \<Rightarrow> (Some e, w) | Inr w' \<Rightarrow> (None, w'))"
| "step pf Stop w = (None, socketStop w)"
| "step pf (Emit h s) w = emit pf h s w"
| "step pf (Settle rid oc) w = (None, settle pf rid oc w)"

fun exec :: "platform \<Rightarrow> input list \<Rightarrow> world \<Rightarrow> world" where
  "exec pf [] w = w"
| "exec pf (i # ins) w = exec pf ins (snd (step pf i w))"

text \<open>The calls a run has added to the trace, and projections of a list of calls.\<close>

definition new_effects :: "world \<Rightarrow> world \<Rightarrow> effect list" where
  "new_effects w w' = drop (length (trace w)) (trace w')"

fun status_of :: "effect \<Rightarrow> InstanceStatus option" where
  "status_of (UpdateStatus s) = Some s"
| "status_of e = None"

definition statuses :: "effect list \<Rightarrow> InstanceStatus list" where
  "statuses es = List.map_filter status_of es"

fun get_timer_params_of :: "effect \<Rightarrow> jsval option" where
  "get_timer_params_of (Send rid get_timer params) = Some params"
| "get_timer_params_of e = None"

definition get_timer_calls :: "effect list \<Rightarrow> jsval list" where
  "get_timer_calls es = List.map_filter get_timer_params_of es"

fun room_update_of :: "effect \<Rightarrow> jsval option" where
  "room_update_of (UpdateRoomState v) = Some v"
| "room_update_of e = None"

definition room_updates :: "effect list \<Rightarrow> jsval list" where
  "room_updates es = List.map_filter room_update_of es"

fun playback_update_of :: "effect \<Rightarrow> jsval option" where
  "playback_update_of (UpdatePlaybackState v) = Some v"
| "playback_update_of e = None"

definition playback_updates :: "effect list \<Rightarrow> jsval list" where
  "playback_updates es = List.map_filter playback_update_of es"

fun timer_update_of :: "effect \<Rightarrow> jsval option" where
  "timer_update_of (UpdateTimerState v) = Some v"
| "timer_update_of e = None"

definition timer_updates :: "effect list \<Rightarrow> jsval list" where
  "timer_updates es = List.map_filter timer_update_of es"

fun object_keys :: "jsval \<Rightarrow> string list" where
  "object_keys (JObj fs) = map fst fs"
| "object_keys v = []"

section \<open>Well-formed inputs and states\<close>

fun nullish :: "jsval \<Rightarrow> bool" where
  "nullish JUndefined = True"
| "nullish JNull = True"
| "nullish v = False"

text \<open>
  Section 6 of the spec: the API client resolves with \<^verbatim>\<open>{data: object}\<close>. The chains
  need no more than a response and a \<^verbatim>\<open>data\<close> that can be destructured.
\<close>

definition well_formed_response :: "jsval \<Rightarrow> bool" where
  "well_formed_response r = (if nullish r then False else \<not> nullish (js_get r ''data''))"

text \<open>Request numbers are handed out in order: a request in flight was sent before.\<close>

definition ids_fresh :: "world \<Rightarrow> bool" where
  "ids_fresh w = list_all (\<lambda>p. fst p < sent w) (pending w)"

text \<open>The indices of the open handles.\<close>

definition live :: "world \<Rightarrow> nat list" where
  "live w = filter (\<lambda>h. is_open (handles w ! h)) [0..<length (handles w)]"

text \<open>The variable \<^verbatim>\<open>socket\<close> names a handle that exists, and no other handle is open.\<close>

definition socket_owns_live :: "world \<Rightarrow> bool" where
  "socket_owns_live w =
     (list_all (\<lambda>h. socket w = Some h) (live w)
      \<and> (case socket w of None \<Rightarrow> True | Some h \<Rightarrow> h < length (handles w)))"

text \<open>
  An input presented to the connection on handle \<open>h\<close>: a signal on \<open>h\<close>, a promise
  settling, or a call of \<^verbatim>\<open>socketStop\<close>; not another \<^verbatim>\<open>socketStart\<close>.
\<close>

fun presented :: "nat \<Rightarrow> input \<Rightarrow> bool" where
  "presented h (Start inst) = False"
| "presented h Stop = True"
| "presented h (Emit h' s) = (h' = h)"
| "presented h (Settle rid oc) = True"

fun transport_signal_of :: "input \<Rightarrow> transport_signal option" where
  "transport_signal_of (Emit h (Transport t)) = Some t"
| "transport_signal_of i = None"

section \<open>What the spec says\<close>

text \<open>
  The transition table of section 4.1 of the spec, in its words and its order: the status a
  transport signal yields, \<open>None\<close> where the status is unchanged. The table has no row
  for an error of the transport manager.
\<close>

definition local_intentional_close :: string where
  "local_intentional_close = ''io client disconnect''"

fun table_4_1 :: "transport_signal \<Rightarrow> InstanceStatus option" where
  "table_4_1 Connect = Some Ok"
| "table_4_1 (ConnectError e) = Some ConnectionFailure"
| "table_4_1 (Disconnect reason) =
     (if reason = local_intentional_close then None else Some Disconnected)"
| "table_4_1 (SockError e) = Some UnknownError"
| "table_4_1 (ReconnectAttempt n) = Some Connecting"
| "table_4_1 (Reconnect n) = Some Ok"
| "table_4_1 ReconnectFailed = Some ConnectionFailure"
| "table_4_1 (ManagerError e) = None"

text \<open>
  Modelled from the spec: \<^verbatim>\<open>state.js\<close>, which holds the State Store, is not among the
  sources. Section 6 of the spec: each mutator accepts a partial field set and merges it;
  fields omitted from a call are left untouched in the store.
\<close>

definition merge_partial :: "jsval \<Rightarrow> (string \<rightharpoonup> jsval) \<Rightarrow> (string \<rightharpoonup> jsval)" where
  "merge_partial partial store = (case partial of JObj fs \<Rightarrow> store ++ map_of fs | _ \<Rightarrow> store)"

section \<open>A concrete platform and instance\<close>

definition example_platform :: platform where
  "example_platform =
     \<lparr>parseURL = (\<lambda>s. if s = ''https://api.stagetimer.io/v1/''
                       then Inr \<lparr>origin = ''https://api.stagetimer.io'', pathname = ''/v1/''\<rparr>
                       else Inl (TypeError ''Invalid URL'')),
      destructure_error = (\<lambda>k v. TypeError (''Cannot destructure property '' @ k))\<rparr>"

definition example_instance :: "ModuleInstance option" where
  "example_instance =
     Some \<lparr>config = Some \<lparr>apiUrl = ''https://api.stagetimer.io/v1/'',
                           roomId = ''room-1'', apiKey = ''key-1''\<rparr>\<rparr>"

text \<open>The state after one successful \<^verbatim>\<open>socketStart\<close> on the initial state.\<close>

definition started_world :: world where
  "started_world = exec example_platform [Start example_instance] init_world"

section \<open>Auxiliary facts\<close>

lemmas sink_defs = perform_def log_def updateStatus_def updateRoomState_def
  updatePlaybackState_def updateTimerState_def updateMessageState_def
  updateFlashingState_def send_def catch_log_def getTimerAndUpdateState_def

lemmas projection_defs = new_effects_def statuses_def get_timer_calls_def
  room_updates_def playback_updates_def timer_updates_def List.map_filter_def

lemma destructure_ok: "\<not> nullish v \<Longrightarrow> destructure pf k v = Inr (js_get v)"
  by (cases v) simp_all

lemma destructure_nullish:
  "nullish v \<Longrightarrow> destructure pf k v = Inl (destructure_error pf k v)"
  by (cases v) simp_all

lemma well_formed_responseD:
  "well_formed_response r \<Longrightarrow> \<not> nullish r \<and> \<not> nullish (js_get r ''data'')"
  by (simp add: well_formed_response_def split: if_splits)

subsection \<open>Requests in flight\<close>

lemma lookup_fresh:
  "ids_fresh w \<Longrightarrow> sent w \<le> n \<Longrightarrow> map_of (pending w @ ps) n = map_of ps n"
  by (auto simp: ids_fresh_def list_all_iff map_add_def map_of_eq_None_iff
      split: option.splits dest!: map_of_SomeD)

lemma fresh_not_pending: "ids_fresh w \<Longrightarrow> sent w \<le> n \<Longrightarrow> map_of (pending w) n = None"
  by (auto simp: ids_fresh_def list_all_iff map_of_eq_None_iff)

lemma filter_fresh:
  "ids_fresh w \<Longrightarrow> sent w \<le> n \<Longrightarrow> filter (\<lambda>p. fst p \<noteq> n) (pending w) = pending w"
  by (auto simp: ids_fresh_def list_all_iff intro!: filter_True)

lemma settle_found:
  "map_of (pending v) rid = Some k \<Longrightarrow>
   settle pf rid oc v = run_chain pf k oc (v\<lparr>pending := filter (\<lambda>p. fst p \<noteq> rid) (pending v)\<rparr>)"
  by (simp add: settle_def)

lemma settle_missing: "map_of (pending v) rid = None \<Longrightarrow> settle pf rid oc v = v"
  by (simp add: settle_def)

subsection \<open>What each chain does\<close>

lemma room_chain_Rejected:
  "room_chain pf (Rejected e) v = v\<lparr>trace := trace v @ [Log ''error'' (toString e)]\<rparr>"
  by (simp add: room_chain_def sink_defs)

lemma status_chain_Rejected:
  "status_chain pf (Rejected e) v = v\<lparr>trace := trace v @ [Log ''error'' (toString e)]\<rparr>"
  by (simp add: status_chain_def sink_defs)

lemma timer_chain_Rejected:
  "timer_chain pf (Rejected e) v = v\<lparr>trace := trace v @ [Log ''error'' (toString e)]\<rparr>"
  by (simp add: timer_chain_def sink_defs)

lemma timer_chain_Resolved:
  "\<not> nullish r \<Longrightarrow> \<not> nullish (js_get r ''data'') \<Longrightarrow>
   timer_chain pf (Resolved r) v =
     v\<lparr>trace := trace v @
          [UpdateTimerState
             (JObj [(''name'', js_get (js_get r ''data'') ''name''),
                    (''speaker'', js_get (js_get r ''data'') ''speaker''),
                    (''notes'', js_get (js_get r ''data'') ''notes''),
                    (''duration'', js_get (js_get r ''data'') ''duration''),
                    (''wrap_up_yellow'', js_get (js_get r ''data'') ''wrap_up_yellow''),
                    (''wrap_up_red'', js_get (js_get r ''data'') ''wrap_up_red'')])]\<rparr>"
  by (simp add: timer_chain_def timer_then_def destructure_ok sink_defs)

lemma status_chain_Resolved:
  "\<not> nullish r \<Longrightarrow> \<not> nullish (js_get r ''data'') \<Longrightarrow>
   status_chain pf (Resolved r) v =
     status_then2 (js_get (js_get r ''data'') ''timer_id'')
       (v\<lparr>trace := trace v @
            [UpdatePlaybackState
               (JObj [(''currentTimerId'', js_get (js_get r ''data'') ''timer_id''),
                      (''isRunning'', js_get (js_get r ''data'') ''running''),
                      (''kickoff'', js_get (js_get r ''data'') ''start''),
                      (''deadline'', js_get (js_get r ''data'') ''finish''),
                      (''lastStop'', js_get (js_get r ''data'') ''pause'')])]\<rparr>)"
  by (simp add: status_chain_def status_then1_def destructure_ok sink_defs)

lemma status_then2_eq:
  "status_then2 t v =
     (if is_falsy t then v
      else v\<lparr>trace := trace v @ [Send (sent v) get_timer (JObj [(''timer_id'', t)])],
             pending := pending v @ [(sent v, TimerChain)],
             sent := Suc (sent v)\<rparr>)"
  by (simp add: status_then2_def sink_defs)

text \<open>A room or timer chain makes one call, which is a log call or its own state update.\<close>

lemma room_chain_effect:
  "\<exists>e. (\<forall>v. room_chain pf oc v = v\<lparr>trace := trace v @ [e]\<rparr>)
       \<and> status_of e = None \<and> get_timer_params_of e = None
       \<and> playback_update_of e = None \<and> timer_update_of e = None"
proof (cases oc)
  case (Rejected e)
  show ?thesis
    by (rule exI [of _ "Log ''error'' (toString e)"]) (simp add: Rejected room_chain_Rejected)
next
  case (Resolved r)
  show ?thesis
  proof (cases "room_then pf r undefined")
    case (Inl e)
    then have "\<forall>v. room_then pf r v = Inl e"
      by (auto simp: room_then_def split: sum.splits)
    then show ?thesis
      by (intro exI [of _ "Log ''error'' (toString e)"])
         (simp add: Resolved room_chain_def sink_defs)
  next
    case (Inr w')
    then obtain a b where ab: "destructure pf ''data'' r = Inr a"
      "destructure pf ''_id'' (a ''data'') = Inr b"
      by (auto simp: room_then_def split: sum.splits)
    show ?thesis
      by (intro exI [of _ "UpdateRoomState
                      (JObj [(''roomId'', b ''_id''),
                             (''roomName'', b ''name''),
                             (''roomBlackout'', b ''blackout''),
                             (''roomFocus'', b ''focus_message'')])"])
         (simp add: Resolved room_chain_def room_then_def ab sink_defs)
  qed
qed

lemma timer_chain_effect:
  "\<exists>e. (\<forall>v. timer_chain pf oc v = v\<lparr>trace := trace v @ [e]\<rparr>)
       \<and> status_of e = None \<and> get_timer_params_of e = None
       \<and> playback_update_of e = None \<and> room_update_of e = None"
proof (cases oc)
  case (Rejected e)
  show ?thesis
    by (rule exI [of _ "Log ''error'' (toString e)"]) (simp add: Rejected timer_chain_Rejected)
next
  case (Resolved r)
  show ?thesis
  proof (cases "timer_then pf r undefined")
    case (Inl e)
    then have "\<forall>v. timer_then pf r v = Inl e"
      by (auto simp: timer_then_def split: sum.splits)
    then show ?thesis
      by (intro exI [of _ "Log ''error'' (toString e)"])
         (simp add: Resolved timer_chain_def sink_defs)
  next
    case (Inr w')
    then obtain a b where ab: "destructure pf ''data'' r = Inr a"
      "destructure pf ''name'' (a ''data'') = Inr b"
      by (auto simp: timer_then_def split: sum.splits)
    show ?thesis
      by (intro exI [of _ "UpdateTimerState
                      (JObj [(''name'', b ''name''),
                             (''speaker'', b ''speaker''),
                             (''notes'', b ''notes''),
                             (''duration'', b ''duration''),
                             (''wrap_up_yellow'', b ''wrap_up_yellow''),
                             (''wrap_up_red'', b ''wrap_up_red'')])"])
         (simp add: Resolved timer_chain_def timer_then_def ab sink_defs)
  qed
qed

subsection \<open>What the listeners do\<close>

lemma emit_connect:
  "h < length (handles w) \<Longrightarrow>
   emit pf h (Transport Connect) w =
     (None, w\<lparr>trace := trace w @ [Log ''info'' ''Connected!'', UpdateStatus Ok,
                                   Send (sent w) get_room (JObj []),
                                   Send (Suc (sent w)) get_status (JObj [])],
              pending := pending w @ [(sent w, RoomChain), (Suc (sent w), StatusChain)],
              sent := Suc (Suc (sent w))\<rparr>)"
  by (simp add: emit_def on_connect_def sink_defs Let_def)

lemma emit_playback_status:
  "h < length (handles w) \<Longrightarrow> \<not> nullish p \<Longrightarrow>
   emit pf h (Push (PlaybackStatus p)) w =
     (None, w\<lparr>trace := trace w @
                  [Log ''debug'' ''Event: playback_status'',
                   UpdatePlaybackState
                     (JObj [(''currentTimerId'', js_get p ''timer_id''),
                            (''isRunning'', js_get p ''running''),
                            (''kickoff'', js_get p ''start''),
                            (''deadline'', js_get p ''finish''),
                            (''lastStop'', js_get p ''pause'')]),
                   Send (sent w) get_timer (JObj [(''timer_id'', js_get p ''timer_id'')])],
              pending := pending w @ [(sent w, TimerChain)],
              sent := Suc (sent w)\<rparr>)"
  by (simp add: emit_def on_playback_status_def destructure_ok sink_defs Let_def)

lemmas run_simps = emit_connect emit_playback_status settle_def
  lookup_fresh fresh_not_pending filter_fresh room_chain_Rejected status_chain_Rejected timer_chain_Rejected
  timer_chain_Resolved status_chain_Resolved status_then2_eq

subsection \<open>Statuses and handles along a step\<close>

lemma statuses_append: "statuses (xs @ ys) = statuses xs @ statuses ys"
  by (simp add: statuses_def List.map_filter_def)

lemma status_chain_quiet:
  "statuses (trace (status_chain pf oc v)) = statuses (trace v)
   \<and> handles (status_chain pf oc v) = handles v \<and> socket (status_chain pf oc v) = socket v"
  by (cases oc)
     (auto simp: status_chain_def status_then1_def status_then2_def sink_defs statuses_def
        List.map_filter_def split: sum.splits)

lemma run_chain_quiet:
  "statuses (trace (run_chain pf k oc v)) = statuses (trace v)
   \<and> handles (run_chain pf k oc v) = handles v \<and> socket (run_chain pf k oc v) = socket v"
proof (cases k)
  case RoomChain
  obtain x where "\<And>v. room_chain pf oc v = v\<lparr>trace := trace v @ [x]\<rparr>" "status_of x = None"
    using room_chain_effect [of pf oc] by blast
  then show ?thesis
    using RoomChain by (simp add: statuses_def List.map_filter_def)
next
  case StatusChain
  then show ?thesis by (simp add: status_chain_quiet)
next
  case TimerChain
  obtain x where "\<And>v. timer_chain pf oc v = v\<lparr>trace := trace v @ [x]\<rparr>" "status_of x = None"
    using timer_chain_effect [of pf oc] by blast
  then show ?thesis
    using TimerChain by (simp add: statuses_def List.map_filter_def)
qed

lemma settle_quiet:
  "statuses (trace (settle pf rid oc v)) = statuses (trace v)
   \<and> handles (settle pf rid oc v) = handles v \<and> socket (settle pf rid oc v) = socket v"
  by (simp add: settle_def run_chain_quiet split: option.splits)

lemma socketStop_quiet:
  "trace (socketStop v) = trace v \<and> length (handles (socketStop v)) = length (handles v)
   \<and> socket (socketStop v) = socket v"
  by (simp add: socketStop_def socket_disconnect_def set_open_def split: option.splits)

lemma on_transport_status:
  "statuses (trace (on_transport t v)) = statuses (trace v) @ List.map_filter table_4_1 [t]
   \<and> handles (on_transport t v) = handles v \<and> socket (on_transport t v) = socket v"
  by (cases t)
     (simp_all add: on_connect_def on_connect_error_def on_disconnect_def on_error_def
        on_reconnect_attempt_def on_reconnect_def on_reconnect_failed_def on_manager_error_def
        local_intentional_close_def sink_defs statuses_def List.map_filter_def Let_def)

lemma on_push_quiet:
  "statuses (trace (snd (on_push pf e v))) = statuses (trace v)
   \<and> handles (snd (on_push pf e v)) = handles v \<and> socket (snd (on_push pf e v)) = socket v"
  by (cases e)
     (simp_all add: on_playback_status_def on_room_def on_message_def on_flash_def sink_defs
        statuses_def List.map_filter_def Let_def split: sum.splits)

lemma step_statuses:
  assumes "presented h i" and "h < length (handles v)"
  shows "statuses (trace (snd (step pf i v))) =
           statuses (trace v) @ List.map_filter table_4_1 (List.map_filter transport_signal_of [i])
         \<and> length (handles (snd (step pf i v))) = length (handles v)"
proof (cases i)
  case (Start inst)
  then show ?thesis using assms by simp
next
  case Stop
  then show ?thesis by (simp add: socketStop_quiet List.map_filter_def)
next
  case (Emit h' s)
  then have h': "h' < length (handles v)" using assms by simp
  show ?thesis
  proof (cases s)
    case (Transport t)
    then show ?thesis
      using Emit h' by (simp add: emit_def on_transport_status List.map_filter_def)
  next
    case (Push e)
    then show ?thesis
      using Emit h' by (simp add: emit_def on_push_quiet List.map_filter_def)
  qed
next
  case (Settle rid oc)
  then show ?thesis by (simp add: settle_quiet List.map_filter_def)
qed

lemma map_filter_Cons_append:
  "List.map_filter f (x # xs) = List.map_filter f [x] @ List.map_filter f xs"
  by (simp add: List.map_filter_def)

lemma exec_statuses:
  "list_all (presented h) ins \<Longrightarrow> h < length (handles v) \<Longrightarrow>
   statuses (trace (exec pf ins v)) =
     statuses (trace v) @ List.map_filter table_4_1 (List.map_filter transport_signal_of ins)"
proof (induction ins arbitrary: v)
  case Nil
  then show ?case by (simp add: List.map_filter_def)
next
  case (Cons i ins)
  from Cons.prems have i: "presented h i" and rest: "list_all (presented h) ins"
    by simp_all
  note s = step_statuses [OF i Cons.prems(2), of pf]
  have "statuses (trace (exec pf (i # ins) v)) =
          statuses (trace (snd (step pf i v)))
          @ List.map_filter table_4_1 (List.map_filter transport_signal_of ins)"
    using Cons.IH [OF rest, of "snd (step pf i v)"] s Cons.prems(2) by simp
  also have "\<dots> = statuses (trace v)
          @ List.map_filter table_4_1 (List.map_filter transport_signal_of [i])
          @ List.map_filter table_4_1 (List.map_filter transport_signal_of ins)"
    using s by simp
  also have "List.map_filter table_4_1 (List.map_filter transport_signal_of [i])
          @ List.map_filter table_4_1 (List.map_filter transport_signal_of ins)
          = List.map_filter table_4_1 (List.map_filter transport_signal_of (i # ins))"
    by (simp add: List.map_filter_def)
  finally show ?case .
qed

lemma socketStart_result:
  assumes "socketStart pf inst w = Inr w1"
  shows "trace w1 = trace w @ [Log ''info'' ''Connecting to Stagetimer.io...'', UpdateStatus Connecting]
         \<and> length (handles w1) = Suc (length (handles w))
         \<and> socket w1 = Some (length (handles w))"
  using assms
  by (auto simp: socketStart_def socketStop_def socket_disconnect_def socket_connect_def
        set_open_def io_def sink_defs Let_def
      split: option.splits sum.splits)

lemma live_iff: "h \<in> set (live w) \<longleftrightarrow> h < length (handles w) \<and> is_open (handles w ! h)"
  by (auto simp: live_def)

lemma live_cong: "handles v = handles w \<Longrightarrow> live v = live w"
  by (simp add: live_def)

lemma owns_cong:
  "handles v = handles w \<Longrightarrow> socket v = socket w \<Longrightarrow> socket_owns_live v = socket_owns_live w"
  by (cases "socket w") (simp_all add: socket_owns_live_def live_def)

lemma owns_at_most_one:
  assumes "socket_owns_live w"
  shows "length (live w) \<le> 1"
proof -
  obtain ls where ls: "ls = live w" by simp
  have d: "distinct ls" unfolding ls by (simp add: live_def)
  have eq: "socket w = Some y" if "y \<in> set ls" for y
    using assms that unfolding ls by (simp add: socket_owns_live_def list_all_iff)
  have "length ls \<le> 1"
  proof (cases ls)
    case Nil
    then show ?thesis by simp
  next
    case (Cons x xs)
    show ?thesis
    proof (cases xs)
      case Nil
      with Cons show ?thesis by simp
    next
      case (Cons y ys)
      have "socket w = Some x" "socket w = Some y"
        using eq [of x] eq [of y] \<open>ls = x # xs\<close> Cons by simp_all
      then have "x = y" by simp
      with d \<open>ls = x # xs\<close> Cons show ?thesis by simp
    qed
  qed
  then show ?thesis unfolding ls .
qed

lemma owns_init: "socket_owns_live init_world"
  by (simp add: socket_owns_live_def live_def init_world_def)

lemma socketStop_closes:
  assumes "socket_owns_live w"
  shows "live (socketStop w) = []"
proof -
  have "h \<notin> set (live (socketStop w))" for h
  proof
    assume h: "h \<in> set (live (socketStop w))"
    show False
    proof (cases "socket w")
      case None
      with h have "h \<in> set (live w)" by (simp add: socketStop_def)
      with assms None show False by (simp add: socket_owns_live_def list_all_iff)
    next
      case (Some s)
      with assms have s: "s < length (handles w)" by (simp add: socket_owns_live_def)
      from h Some s have "h < length (handles w)" "h \<noteq> s \<longrightarrow> is_open (handles w ! h)" "h \<noteq> s"
        by (auto simp: live_iff socketStop_def socket_disconnect_def set_open_def
            nth_list_update split: if_splits)
      then have "h \<in> set (live w)" "h \<noteq> s" by (simp_all add: live_iff)
      with assms Some show False by (auto simp: socket_owns_live_def list_all_iff)
    qed
  qed
  then show ?thesis by (cases "live (socketStop w)") auto
qed

lemma socketStop_owns: "socket_owns_live w \<Longrightarrow> socket_owns_live (socketStop w)"
  using socketStop_closes [of w]
  by (simp add: socket_owns_live_def socketStop_def socket_disconnect_def set_open_def
      split: option.splits)

lemma socketStart_live:
  assumes "socket_owns_live w" and "socketStart pf inst w = Inr w'"
  shows "live w' = [length (handles w)] \<and> socket w' = Some (length (handles w))
         \<and> length (handles w') = Suc (length (handles w))"
proof -
  let ?n = "length (handles w)"
  have len: "length (handles (socketStop w)) = ?n"
    by (simp add: socketStop_def socket_disconnect_def set_open_def split: option.splits)
  have closed: "\<forall>h < ?n. \<not> is_open (handles (socketStop w) ! h)"
    using socketStop_closes [OF assms(1)] len by (auto simp: live_def filter_empty_conv)
  obtain new where w': "handles w' = handles (socketStop w) @ [new]" "is_open new"
    "socket w' = Some ?n"
    using assms(2) len
    by (auto simp: socketStart_def socket_connect_def set_open_def io_def sink_defs Let_def
        split: option.splits sum.splits)
  have "filter (\<lambda>h. is_open (handles w' ! h)) [0..<?n] = []"
    using closed len w'(1) by (auto simp: filter_empty_conv nth_append)
  then have "live w' = [?n]"
    using w' len by (simp add: live_def nth_append)
  then show ?thesis using w' len by simp
qed

lemma socketStart_owns:
  assumes "socket_owns_live w" and "socketStart pf inst w = Inr w'"
  shows "socket_owns_live w'"
proof -
  from socketStart_live [OF assms]
  have "live w' = [length (handles w)]" "socket w' = Some (length (handles w))"
    "length (handles w') = Suc (length (handles w))"
    by simp_all
  then show ?thesis by (simp add: socket_owns_live_def)
qed

lemma step_owns: "socket_owns_live w \<Longrightarrow> socket_owns_live (snd (step pf i w))"
proof (cases i)
  case (Start inst)
  assume "socket_owns_live w"
  then show ?thesis
    using Start socketStart_owns [of w pf inst] by (cases "socketStart pf inst w") simp_all
next
  case Stop
  assume "socket_owns_live w"
  then show ?thesis using Stop by (simp add: socketStop_owns)
next
  case (Emit h s)
  assume w: "socket_owns_live w"
  have "handles (snd (emit pf h s w)) = handles w \<and> socket (snd (emit pf h s w)) = socket w"
    by (cases s) (simp_all add: emit_def on_transport_status on_push_quiet)
  then show ?thesis using Emit w owns_cong [of "snd (emit pf h s w)" w] by simp
next
  case (Settle rid oc)
  assume w: "socket_owns_live w"
  then show ?thesis
    using Settle owns_cong [of "settle pf rid oc w" w] settle_quiet [of pf rid oc w] by simp
qed

lemma exec_owns: "socket_owns_live w \<Longrightarrow> socket_owns_live (exec pf ins w)"
  by (induction ins arbitrary: w) (simp_all add: step_owns)

subsection \<open>The started state\<close>

lemma started_world_eq:
  "started_world =
     \<lparr>socket = Some 0,
      handles = [\<lparr>h_origin = ''https://api.stagetimer.io'',
                  h_opts = \<lparr>path = ''/v1/socket.io'',
                            auth = \<lparr>room_id = ''room-1'', api_key = ''key-1''\<rparr>,
                            reconnectionAttempts = 5, reconnectionDelayMax = 10000\<rparr>,
                  is_open = True\<rparr>],
      trace = [Log ''info'' ''Connecting to Stagetimer.io...'', UpdateStatus Connecting],
      pending = [], sent = 0\<rparr>"
  by (simp add: started_world_def socketStart_def example_platform_def example_instance_def
        init_world_def socketStop_def socket_connect_def set_open_def io_def sink_defs Let_def)

lemma started_world_facts:
  "ids_fresh started_world" "0 < length (handles started_world)" "sent started_world = 0"
  "pending started_world = []" "length (handles started_world) = Suc 0"
  "trace started_world = [Log ''info'' ''Connecting to Stagetimer.io...'', UpdateStatus Connecting]"
  by (simp_all add: started_world_eq ids_fresh_def)

section \<open>The claims\<close>

text \<open>
  Claim C1. After a successful \<^verbatim>\<open>socketStart\<close>, whatever transport signals, Stagetimer
  events, settled promises and \<^verbatim>\<open>socketStop\<close> calls are presented to the new handle, the
  statuses forwarded to \<^verbatim>\<open>updateStatus\<close> are \<open>Connecting\<close> followed by exactly the
  statuses the table of section 4.1 gives for the transport signals, in their order. A
  disconnect with reason \<^verbatim>\<open>io client disconnect\<close> contributes none: connect followed by
  that disconnect gives \<open>[Connecting, Ok]\<close>.
\<close>

theorem status_sequence_matches_table:
  assumes "socketStart pf inst w = Inr w1"
    and "list_all (presented (length (handles w))) ins"
  shows "statuses (trace (exec pf ins w1)) =
           statuses (trace w) @ Connecting
             # List.map_filter table_4_1 (List.map_filter transport_signal_of ins)"
proof -
  note s = socketStart_result [OF assms(1)]
  have "statuses (trace (exec pf ins w1)) =
          statuses (trace w1) @ List.map_filter table_4_1 (List.map_filter transport_signal_of ins)"
    using exec_statuses [OF assms(2), of w1 pf] s by simp
  then show ?thesis
    using s by (simp add: statuses_def List.map_filter_def)
qed

theorem status_sequence_matches_table_witness:
  "statuses (trace (exec example_platform
      [Start example_instance, Emit 0 (Transport Connect),
       Emit 0 (Transport (Disconnect ''io client disconnect''))] init_world)) = [Connecting, Ok]"
proof -
  have start: "socketStart example_platform example_instance init_world =
    Inr (snd (step example_platform (Start example_instance) init_world))"
    by (simp add: socketStart_def example_platform_def example_instance_def init_world_def
          socketStop_def socket_connect_def set_open_def io_def sink_defs Let_def)
  have pres: "list_all (presented (length (handles init_world)))
     [Emit 0 (Transport Connect), Emit 0 (Transport (Disconnect ''io client disconnect''))]"
    by (simp add: init_world_def)
  show ?thesis
    using status_sequence_matches_table [OF start pres]
    by (simp add: init_world_def statuses_def List.map_filter_def local_intentional_close_def)
qed

text \<open>
  Claim C2. In every state reached from the initial one by any inputs at most one handle is
  open. A successful \<^verbatim>\<open>socketStart\<close> leaves exactly the handle it has created open, so
  two in succession leave exactly one, the second. A connect signal on a handle runs the
  bootstrap once: one \<^verbatim>\<open>get_room\<close> and one \<^verbatim>\<open>get_status\<close> request.
\<close>

theorem at_most_one_live_handle:
  "length (live (exec pf ins init_world)) \<le> 1
   \<and> (socketStart pf i1 (exec pf ins init_world) = Inr w1 \<longrightarrow>
        live w1 = [length (handles (exec pf ins init_world))]
        \<and> (socketStart pf i2 w1 = Inr w2 \<longrightarrow>
             live w2 = [Suc (length (handles (exec pf ins init_world)))]
             \<and> socket w2 = Some (Suc (length (handles (exec pf ins init_world))))
             \<and> length (handles w2) = length (handles (exec pf ins init_world)) + 2))
   \<and> (h < length (handles v) \<longrightarrow>
        new_effects v (snd (emit pf h (Transport Connect) v)) =
          [Log ''info'' ''Connected!'', UpdateStatus Ok,
           Send (sent v) get_room (JObj []), Send (Suc (sent v)) get_status (JObj [])])"
proof -
  let ?w = "exec pf ins init_world"
  have inv: "socket_owns_live ?w" by (rule exec_owns [OF owns_init])
  have a: "length (live ?w) \<le> 1" by (rule owns_at_most_one [OF inv])
  have b: "live w1 = [length (handles ?w)]
        \<and> (socketStart pf i2 w1 = Inr w2 \<longrightarrow>
             live w2 = [Suc (length (handles ?w))]
             \<and> socket w2 = Some (Suc (length (handles ?w)))
             \<and> length (handles w2) = length (handles ?w) + 2)"
    if s1: "socketStart pf i1 ?w = Inr w1"
  proof -
    note l1 = socketStart_live [OF inv s1]
    have inv1: "socket_owns_live w1" by (rule socketStart_owns [OF inv s1])
    show ?thesis
      using l1 socketStart_live [OF inv1, of pf i2 w2] by simp
  qed
  have c: "new_effects v (snd (emit pf h (Transport Connect) v)) =
          [Log ''info'' ''Connected!'', UpdateStatus Ok,
           Send (sent v) get_room (JObj []), Send (Suc (sent v)) get_status (JObj [])]"
    if "h < length (handles v)"
    using that by (simp add: emit_connect new_effects_def)
  from a b c show ?thesis by blast
qed

theorem at_most_one_live_handle_witness:
  "length (live (exec example_platform [] init_world)) \<le> 1
   \<and> socketStart example_platform example_instance (exec example_platform [] init_world) =
       Inr started_world
   \<and> live started_world = [0]
   \<and> socketStart example_platform example_instance started_world =
       Inr (exec example_platform [Start example_instance, Start example_instance] init_world)
   \<and> live (exec example_platform [Start example_instance, Start example_instance] init_world) =
       [Suc 0]
   \<and> 0 < length (handles started_world)
   \<and> new_effects started_world (snd (emit example_platform 0 (Transport Connect) started_world)) =
       [Log ''info'' ''Connected!'', UpdateStatus Ok,
        Send 0 get_room (JObj []), Send (Suc 0) get_status (JObj [])]"
proof -
  have s1: "socketStart example_platform example_instance (exec example_platform [] init_world) =
       Inr started_world"
    by (simp add: started_world_eq socketStart_def example_platform_def example_instance_def
          init_world_def socketStop_def socket_connect_def set_open_def io_def sink_defs Let_def)
  have s2: "socketStart example_platform example_instance started_world =
       Inr (exec example_platform [Start example_instance, Start example_instance] init_world)"
    using s1
    by (simp add: started_world_eq socketStart_def example_platform_def example_instance_def
          init_world_def socketStop_def socket_disconnect_def socket_connect_def set_open_def
          io_def sink_defs Let_def)
  show ?thesis
    using s1 s2
      at_most_one_live_handle [where pf = example_platform and ins = "[]"
        and ?i1.0 = example_instance and ?i2.0 = example_instance and ?w1.0 = started_world
        and ?w2.0 = "exec example_platform [Start example_instance, Start example_instance] init_world"
        and h = 0 and v = started_world]
    by (simp add: started_world_facts init_world_def)
qed

text \<open>
  Claim C3. In a bootstrap run where \<^verbatim>\<open>get_status\<close> resolves with a well-formed response,
  whether \<^verbatim>\<open>get_room\<close> settles before, after or not at all: if \<^verbatim>\<open>timer_id\<close> is falsy
  no \<^verbatim>\<open>get_timer\<close> request is issued, otherwise exactly one is, with params
  \<^verbatim>\<open>{timer_id}\<close>; for \<^verbatim>\<open>"T1"\<close> the params are \<^verbatim>\<open>{timer_id: "T1"}\<close>.
\<close>

theorem bootstrap_get_timer_guard:
  assumes "ids_fresh w" and "h < length (handles w)" and "well_formed_response r"
    and "ins \<in> {[Settle (Suc (sent w)) (Resolved r)],
                [Settle (sent w) oc, Settle (Suc (sent w)) (Resolved r)],
                [Settle (Suc (sent w)) (Resolved r), Settle (sent w) oc]}"
  shows "get_timer_calls (new_effects w (exec pf (Emit h (Transport Connect) # ins) w)) =
           (if is_falsy (js_get (js_get r ''data'') ''timer_id'') then []
            else [JObj [(''timer_id'', js_get (js_get r ''data'') ''timer_id'')]])"
proof -
  note r = well_formed_responseD [OF assms(3)]
  obtain x where x: "\<And>v. room_chain pf oc v = v\<lparr>trace := trace v @ [x]\<rparr>"
    "get_timer_params_of x = None"
    using room_chain_effect [of pf oc] by blast
  from assms(4) consider
      "ins = [Settle (Suc (sent w)) (Resolved r)]"
    | "ins = [Settle (sent w) oc, Settle (Suc (sent w)) (Resolved r)]"
    | "ins = [Settle (Suc (sent w)) (Resolved r), Settle (sent w) oc]"
    by auto
  then show ?thesis
  proof cases
    case 1
    then show ?thesis
      using assms(1,2) r by (simp add: run_simps projection_defs del: map_of_append)
  next
    case 2
    then show ?thesis
      using assms(1,2) r x by (simp add: run_simps projection_defs del: map_of_append)
  next
    case 3
    then show ?thesis
      using assms(1,2) r x by (simp add: run_simps projection_defs del: map_of_append)
  qed
qed

theorem bootstrap_get_timer_guard_witness:
  "get_timer_calls
     (new_effects started_world
        (exec example_platform
           [Emit 0 (Transport Connect),
            Settle (Suc 0) (Resolved (JObj [(''data'', JObj [(''timer_id'', JStr ''T1'')])]))]
           started_world)) = [JObj [(''timer_id'', JStr ''T1'')]]
   \<and> get_timer_calls
     (new_effects started_world
        (exec example_platform
           [Emit 0 (Transport Connect),
            Settle (Suc 0) (Resolved (JObj [(''data'', JObj [(''timer_id'', JNull)])]))]
           started_world)) = []"
  using bootstrap_get_timer_guard [where w = started_world and h = 0
          and r = "JObj [(''data'', JObj [(''timer_id'', JStr ''T1'')])]"
          and ins = "[Settle (Suc 0) (Resolved (JObj [(''data'', JObj [(''timer_id'', JStr ''T1'')])]))]"
          and oc = "Rejected (Error [])" and pf = example_platform]
        bootstrap_get_timer_guard [where w = started_world and h = 0
          and r = "JObj [(''data'', JObj [(''timer_id'', JNull)])]"
          and ins = "[Settle (Suc 0) (Resolved (JObj [(''data'', JObj [(''timer_id'', JNull)])]))]"
          and oc = "Rejected (Error [])" and pf = example_platform]
  by (simp add: started_world_facts well_formed_response_def)

text \<open>
  Claim C4. On a \<^verbatim>\<open>playback_status\<close> event whose payload can be destructured, the listener
  throws nothing, applies the playback snapshot and issues \<^verbatim>\<open>get_timer\<close> with the payload's
  \<^verbatim>\<open>timer_id\<close> (for instance \<^verbatim>\<open>"T2"\<close>). If that request rejects, the error is logged,
  nothing is thrown and \<^verbatim>\<open>updateTimerState\<close> is not called.
\<close>

theorem playback_status_fetch_rejected:
  assumes "ids_fresh w" and "h < length (handles w)" and "\<not> nullish p"
  shows "fst (emit pf h (Push (PlaybackStatus p)) w) = None
         \<and> new_effects w (snd (emit pf h (Push (PlaybackStatus p)) w)) =
             [Log ''debug'' ''Event: playback_status'',
              UpdatePlaybackState
                (JObj [(''currentTimerId'', js_get p ''timer_id''),
                       (''isRunning'', js_get p ''running''),
                       (''kickoff'', js_get p ''start''),
                       (''deadline'', js_get p ''finish''),
                       (''lastStop'', js_get p ''pause'')]),
              Send (sent w) get_timer (JObj [(''timer_id'', js_get p ''timer_id'')])]
         \<and> fst (step pf (Settle (sent w) (Rejected e))
                  (snd (emit pf h (Push (PlaybackStatus p)) w))) = None
         \<and> new_effects (snd (emit pf h (Push (PlaybackStatus p)) w))
              (snd (step pf (Settle (sent w) (Rejected e))
                      (snd (emit pf h (Push (PlaybackStatus p)) w)))) =
             [Log ''error'' (toString e)]
         \<and> timer_updates
              (new_effects w
                 (exec pf [Emit h (Push (PlaybackStatus p)), Settle (sent w) (Rejected e)] w)) = []"
  using assms
  by (simp add: run_simps projection_defs del: map_of_append)

theorem playback_status_fetch_rejected_witness:
  "fst (emit example_platform 0 (Push (PlaybackStatus (JObj [(''timer_id'', JStr ''T2'')])))
          started_world) = None
   \<and> get_timer_calls
       (new_effects started_world
          (snd (emit example_platform 0
                  (Push (PlaybackStatus (JObj [(''timer_id'', JStr ''T2'')]))) started_world))) =
       [JObj [(''timer_id'', JStr ''T2'')]]
   \<and> new_effects
        (snd (emit example_platform 0
                (Push (PlaybackStatus (JObj [(''timer_id'', JStr ''T2'')]))) started_world))
        (snd (step example_platform (Settle 0 (Rejected (Error ''timeout'')))
                (snd (emit example_platform 0
                        (Push (PlaybackStatus (JObj [(''timer_id'', JStr ''T2'')])))
                        started_world)))) =
       [Log ''error'' ''Error: timeout'']
   \<and> timer_updates
        (new_effects started_world
           (exec example_platform
              [Emit 0 (Push (PlaybackStatus (JObj [(''timer_id'', JStr ''T2'')]))),
               Settle 0 (Rejected (Error ''timeout''))] started_world)) = []"
  using playback_status_fetch_rejected [where w = started_world and h = 0
          and p = "JObj [(''timer_id'', JStr ''T2'')]" and e = "Error ''timeout''"
          and pf = example_platform]
  by (simp add: started_world_facts toString_def get_timer_calls_def List.map_filter_def)

text \<open>
  Claim C5. A \<^verbatim>\<open>room\<close> event makes one \<^verbatim>\<open>updateRoomState\<close> call, whose argument has the
  two fields \<^verbatim>\<open>roomBlackout\<close> and \<^verbatim>\<open>roomFocus\<close> only, taken from \<^verbatim>\<open>blackout\<close> and
  \<^verbatim>\<open>focus_message\<close> (and none when the payload is null or undefined, where the
  destructuring throws). Merged into a store as section 6 of the spec describes the merge,
  it leaves \<^verbatim>\<open>roomId\<close> and \<^verbatim>\<open>roomName\<close> as they were.
\<close>

theorem room_event_partial_update:
  assumes "h < length (handles w)"
  shows "room_updates (new_effects w (snd (emit pf h (Push (Room p)) w))) =
           (if nullish p then []
            else [JObj [(''roomBlackout'', js_get p ''blackout''),
                        (''roomFocus'', js_get p ''focus_message'')]])
         \<and> map object_keys (room_updates (new_effects w (snd (emit pf h (Push (Room p)) w)))) =
             (if nullish p then [] else [[''roomBlackout'', ''roomFocus'']])
         \<and> fold merge_partial (room_updates (new_effects w (snd (emit pf h (Push (Room p)) w))))
              store ''roomId'' = store ''roomId''
         \<and> fold merge_partial (room_updates (new_effects w (snd (emit pf h (Push (Room p)) w))))
              store ''roomName'' = store ''roomName''"
  using assms
  by (simp add: emit_def on_room_def destructure_ok destructure_nullish sink_defs
        projection_defs Let_def merge_partial_def map_add_def)

theorem room_event_partial_update_witness:
  "room_updates
     (new_effects started_world
        (snd (emit example_platform 0
                (Push (Room (JObj [(''blackout'', JBool True), (''focus_message'', JStr ''x'')])))
                started_world))) =
     [JObj [(''roomBlackout'', JBool True), (''roomFocus'', JStr ''x'')]]
   \<and> fold merge_partial
        (room_updates
           (new_effects started_world
              (snd (emit example_platform 0
                      (Push (Room (JObj [(''blackout'', JBool True), (''focus_message'', JStr ''x'')])))
                      started_world))))
        [''roomId'' \<mapsto> JStr ''room-1'', ''roomName'' \<mapsto> JStr ''Main stage'']
        ''roomId'' = Some (JStr ''room-1'')"
  using room_event_partial_update [where w = started_world and h = 0
          and p = "JObj [(''blackout'', JBool True), (''focus_message'', JStr ''x'')]"
          and pf = example_platform
          and store = "[''roomId'' \<mapsto> JStr ''room-1'', ''roomName'' \<mapsto> JStr ''Main stage'']"]
  by (simp add: started_world_facts merge_partial_def map_add_def)

text \<open>
  Claim C6. In a bootstrap run where \<^verbatim>\<open>get_room\<close> rejects and \<^verbatim>\<open>get_status\<close> resolves
  with a well-formed response, in each order the promises can settle in, with or without
  the chained \<^verbatim>\<open>get_timer\<close> settling: \<^verbatim>\<open>updateRoomState\<close> is never called,
  \<^verbatim>\<open>updatePlaybackState\<close> is called exactly once, and the error of \<^verbatim>\<open>get_room\<close> is
  logged; the log call is all the rejection does.
\<close>

theorem bootstrap_room_failure_independent:
  assumes "ids_fresh w" and "h < length (handles w)" and "well_formed_response r"
    and "ins \<in> {[Settle (sent w) (Rejected e), Settle (Suc (sent w)) (Resolved r)],
                [Settle (Suc (sent w)) (Resolved r), Settle (sent w) (Rejected e)],
                [Settle (sent w) (Rejected e), Settle (Suc (sent w)) (Resolved r),
                 Settle (Suc (Suc (sent w))) oc],
                [Settle (Suc (sent w)) (Resolved r), Settle (sent w) (Rejected e),
                 Settle (Suc (Suc (sent w))) oc],
                [Settle (Suc (sent w)) (Resolved r), Settle (Suc (Suc (sent w))) oc,
                 Settle (sent w) (Rejected e)]}"
  shows "room_updates (new_effects w (exec pf (Emit h (Transport Connect) # ins) w)) = []
         \<and> length (playback_updates
                     (new_effects w (exec pf (Emit h (Transport Connect) # ins) w))) = 1
         \<and> Log ''error'' (toString e)
             \<in> set (new_effects w (exec pf (Emit h (Transport Connect) # ins) w))
         \<and> new_effects (snd (emit pf h (Transport Connect) w))
             (settle pf (sent w) (Rejected e) (snd (emit pf h (Transport Connect) w))) =
             [Log ''error'' (toString e)]"
proof -
  note r = well_formed_responseD [OF assms(3)]
  obtain x where x: "\<And>v. timer_chain pf oc v = v\<lparr>trace := trace v @ [x]\<rparr>"
    "room_update_of x = None" "playback_update_of x = None"
    using timer_chain_effect [of pf oc] by blast
  have last: "new_effects (snd (emit pf h (Transport Connect) w))
             (settle pf (sent w) (Rejected e) (snd (emit pf h (Transport Connect) w))) =
             [Log ''error'' (toString e)]"
    using assms(1,2) by (simp add: run_simps new_effects_def del: map_of_append)
  let ?t = "js_get (js_get r ''data'') ''timer_id''"
  let ?E = "new_effects w (exec pf (Emit h (Transport Connect) # ins) w)"
  from assms(4) consider
      "ins = [Settle (sent w) (Rejected e), Settle (Suc (sent w)) (Resolved r)]"
    | "ins = [Settle (Suc (sent w)) (Resolved r), Settle (sent w) (Rejected e)]"
    | "ins = [Settle (sent w) (Rejected e), Settle (Suc (sent w)) (Resolved r),
                 Settle (Suc (Suc (sent w))) oc]"
    | "ins = [Settle (Suc (sent w)) (Resolved r), Settle (sent w) (Rejected e),
                 Settle (Suc (Suc (sent w))) oc]"
    | "ins = [Settle (Suc (sent w)) (Resolved r), Settle (Suc (Suc (sent w))) oc,
                 Settle (sent w) (Rejected e)]"
    by auto
  then have "\<exists>es. ?E = es \<and> room_updates es = [] \<and> length (playback_updates es) = 1
                  \<and> Log ''error'' (toString e) \<in> set es"
  proof cases
    case 1
    show ?thesis
    proof (cases "is_falsy ?t")
      case True
      with 1 assms(1,2) r show ?thesis
        by (simp add: run_simps projection_defs del: map_of_append)
    next
      case False
      with 1 assms(1,2) r show ?thesis
        by (simp add: run_simps projection_defs del: map_of_append)
    qed
  next
    case 2
    show ?thesis
    proof (cases "is_falsy ?t")
      case True
      with 2 assms(1,2) r show ?thesis
        by (simp add: run_simps projection_defs del: map_of_append)
    next
      case False
      with 2 assms(1,2) r show ?thesis
        by (simp add: run_simps projection_defs del: map_of_append)
    qed
  next
    case 3
    show ?thesis
    proof (cases "is_falsy ?t")
      case True
      with 3 assms(1,2) r x show ?thesis
        by (simp add: run_simps projection_defs del: map_of_append)
    next
      case False
      with 3 assms(1,2) r x show ?thesis
        by (simp add: run_simps projection_defs del: map_of_append)
    qed
  next
    case 4
    show ?thesis
    proof (cases "is_falsy ?t")
      case True
      with 4 assms(1,2) r x show ?thesis
        by (simp add: run_simps projection_defs del: map_of_append)
    next
      case False
      with 4 assms(1,2) r x show ?thesis
        by (simp add: run_simps projection_defs del: map_of_append)
    qed
  next
    case 5
    show ?thesis
    proof (cases "is_falsy ?t")
      case True
      with 5 assms(1,2) r x show ?thesis
        by (simp add: run_simps projection_defs del: map_of_append)
    next
      case False
      with 5 assms(1,2) r x show ?thesis
        by (simp add: run_simps projection_defs del: map_of_append)
    qed
  qed
  with last show ?thesis by simp
qed

theorem bootstrap_room_failure_independent_witness:
  "room_updates
     (new_effects started_world
        (exec example_platform
           [Emit 0 (Transport Connect),
            Settle (Suc 0) (Resolved (JObj [(''data'', JObj [(''timer_id'', JStr ''T1'')])])),
            Settle 0 (Rejected (Error ''no room''))] started_world)) = []
   \<and> length (playback_updates
       (new_effects started_world
          (exec example_platform
             [Emit 0 (Transport Connect),
              Settle (Suc 0) (Resolved (JObj [(''data'', JObj [(''timer_id'', JStr ''T1'')])])),
              Settle 0 (Rejected (Error ''no room''))] started_world))) = 1
   \<and> Log ''error'' ''Error: no room''
       \<in> set (new_effects started_world
          (exec example_platform
             [Emit 0 (Transport Connect),
              Settle (Suc 0) (Resolved (JObj [(''data'', JObj [(''timer_id'', JStr ''T1'')])])),
              Settle 0 (Rejected (Error ''no room''))] started_world))"
  using bootstrap_room_failure_independent [where w = started_world and h = 0
          and r = "JObj [(''data'', JObj [(''timer_id'', JStr ''T1'')])]"
          and e = "Error ''no room''" and oc = "Rejected (Error [])" and pf = example_platform
          and ins = "[Settle (Suc 0) (Resolved (JObj [(''data'', JObj [(''timer_id'', JStr ''T1'')])])),
                      Settle 0 (Rejected (Error ''no room''))]"]
  by (simp add: started_world_facts well_formed_response_def toString_def)

text \<open>
  Claim C7. The handle \<^verbatim>\<open>socketStart\<close> creates is configured with
  \<^verbatim>\<open>reconnectionAttempts: 5\<close> and \<^verbatim>\<open>reconnectionDelayMax: 10000\<close> (milliseconds, that
  is 10 seconds). On \<^verbatim>\<open>reconnect_failed\<close> the listener logs, forwards
  \<open>ConnectionFailure\<close> and does nothing else: no handle is created or reopened and no
  request is sent.
\<close>

theorem reconnection_bounded:
  "(socketStart pf inst w = Inr w' \<longrightarrow>
      socket w' = Some (length (handles w))
      \<and> length (handles w') = Suc (length (handles w))
      \<and> reconnectionAttempts (h_opts (handles w' ! length (handles w))) = 5
      \<and> reconnectionDelayMax (h_opts (handles w' ! length (handles w))) = 10000)
   \<and> (h < length (handles v) \<longrightarrow>
      emit pf h (Transport ReconnectFailed) v =
        (None, v\<lparr>trace := trace v @ [Log ''error'' ''Unable to connect to Stagetimer.io!'',
                                      UpdateStatus ConnectionFailure]\<rparr>))"
  by (auto simp: socketStart_def socketStop_def socket_disconnect_def socket_connect_def
        set_open_def io_def emit_def on_reconnect_failed_def sink_defs Let_def nth_append
      split: option.splits sum.splits)

theorem reconnection_bounded_witness:
  "socketStart example_platform example_instance init_world = Inr started_world
   \<and> reconnectionAttempts (h_opts (handles started_world ! 0)) = 5
   \<and> reconnectionDelayMax (h_opts (handles started_world ! 0)) = 10000
   \<and> 0 < length (handles started_world)
   \<and> emit example_platform 0 (Transport ReconnectFailed) started_world =
       (None, started_world\<lparr>trace := trace started_world @
          [Log ''error'' ''Unable to connect to Stagetimer.io!'', UpdateStatus ConnectionFailure]\<rparr>)"
proof -
  have s1: "socketStart example_platform example_instance init_world = Inr started_world"
    by (simp add: started_world_eq socketStart_def example_platform_def example_instance_def
          init_world_def socketStop_def socket_connect_def set_open_def io_def sink_defs Let_def)
  show ?thesis
    using s1 reconnection_bounded [where pf = example_platform and inst = example_instance
        and w = init_world and w' = started_world and h = 0 and v = started_world]
    by (simp add: started_world_facts init_world_def)
qed

text \<open>
  Claim C8 as stated names the fields \<^verbatim>\<open>wrapUpYellowAt\<close> and \<^verbatim>\<open>wrapUpRedAt\<close>. The
  object \<^verbatim>\<open>getTimerAndUpdateState\<close> hands to \<^verbatim>\<open>updateTimerState\<close> is built with
  shorthand properties and has the keys of the response instead.
\<close>

theorem timer_snapshot_spec_names_counterexample:
  "map object_keys
     (timer_updates
        (trace (exec example_platform
           [Start example_instance,
            Emit 0 (Push (PlaybackStatus (JObj [(''timer_id'', JStr ''T2'')]))),
            Settle 0 (Resolved (JObj [(''data'',
               JObj [(''name'', JStr ''Keynote''), (''speaker'', JStr ''Ada''),
                     (''notes'', JStr ''none''), (''duration'', JNum 600000),
                     (''wrap_up_yellow'', JNum 60000), (''wrap_up_red'', JNum 15000)])]))]
           init_world)))
   \<noteq> [[''name'', ''speaker'', ''notes'', ''duration'', ''wrapUpYellowAt'', ''wrapUpRedAt'']]"
  by (simp add: example_platform_def example_instance_def init_world_def socketStart_def
        socketStop_def socket_connect_def set_open_def io_def emit_def on_playback_status_def
        settle_def timer_chain_def timer_then_def sink_defs projection_defs Let_def)

text \<open>
  Claim C8, amended. A \<^verbatim>\<open>get_timer\<close> request that resolves with a well-formed response,
  whether issued by a \<^verbatim>\<open>playback_status\<close> event or by the bootstrap chain, makes one call:
  \<^verbatim>\<open>updateTimerState\<close> with the fields \<^verbatim>\<open>name\<close>, \<^verbatim>\<open>speaker\<close>, \<^verbatim>\<open>notes\<close>,
  \<^verbatim>\<open>duration\<close>, \<^verbatim>\<open>wrap_up_yellow\<close> and \<^verbatim>\<open>wrap_up_red\<close> of the response's data.
\<close>

theorem timer_snapshot_fields:
  assumes "ids_fresh w" and "h < length (handles w)" and "well_formed_response r"
  shows "(\<not> nullish p \<longrightarrow>
            new_effects (snd (emit pf h (Push (PlaybackStatus p)) w))
              (settle pf (sent w) (Resolved r) (snd (emit pf h (Push (PlaybackStatus p)) w))) =
            [UpdateTimerState
               (JObj [(''name'', js_get (js_get r ''data'') ''name''),
                      (''speaker'', js_get (js_get r ''data'') ''speaker''),
                      (''notes'', js_get (js_get r ''data'') ''notes''),
                      (''duration'', js_get (js_get r ''data'') ''duration''),
                      (''wrap_up_yellow'', js_get (js_get r ''data'') ''wrap_up_yellow''),
                      (''wrap_up_red'', js_get (js_get r ''data'') ''wrap_up_red'')])])
         \<and> (well_formed_response rs \<longrightarrow> \<not> is_falsy (js_get (js_get rs ''data'') ''timer_id'') \<longrightarrow>
            new_effects
              (exec pf [Emit h (Transport Connect), Settle (Suc (sent w)) (Resolved rs)] w)
              (settle pf (Suc (Suc (sent w))) (Resolved r)
                 (exec pf [Emit h (Transport Connect), Settle (Suc (sent w)) (Resolved rs)] w)) =
            [UpdateTimerState
               (JObj [(''name'', js_get (js_get r ''data'') ''name''),
                      (''speaker'', js_get (js_get r ''data'') ''speaker''),
                      (''notes'', js_get (js_get r ''data'') ''notes''),
                      (''duration'', js_get (js_get r ''data'') ''duration''),
                      (''wrap_up_yellow'', js_get (js_get r ''data'') ''wrap_up_yellow''),
                      (''wrap_up_red'', js_get (js_get r ''data'') ''wrap_up_red'')])])"
proof -
  note r = well_formed_responseD [OF assms(3)]
  show ?thesis
    using assms(1,2) r
    by (auto dest!: well_formed_responseD simp: run_simps projection_defs
        simp del: map_of_append)
qed

theorem timer_snapshot_fields_witness:
  "new_effects
     (snd (emit example_platform 0
             (Push (PlaybackStatus (JObj [(''timer_id'', JStr ''T2'')]))) started_world))
     (settle example_platform 0
        (Resolved (JObj [(''data'',
           JObj [(''name'', JStr ''Keynote''), (''wrap_up_yellow'', JNum 60000)])]))
        (snd (emit example_platform 0
                (Push (PlaybackStatus (JObj [(''timer_id'', JStr ''T2'')]))) started_world))) =
     [UpdateTimerState
        (JObj [(''name'', JStr ''Keynote''), (''speaker'', JUndefined), (''notes'', JUndefined),
               (''duration'', JUndefined), (''wrap_up_yellow'', JNum 60000),
               (''wrap_up_red'', JUndefined)])]
   \<and> new_effects
     (exec example_platform
        [Emit 0 (Transport Connect),
         Settle (Suc 0) (Resolved (JObj [(''data'', JObj [(''timer_id'', JStr ''T1'')])]))]
        started_world)
     (settle example_platform (Suc (Suc 0))
        (Resolved (JObj [(''data'',
           JObj [(''name'', JStr ''Keynote''), (''wrap_up_yellow'', JNum 60000)])]))
        (exec example_platform
           [Emit 0 (Transport Connect),
            Settle (Suc 0) (Resolved (JObj [(''data'', JObj [(''timer_id'', JStr ''T1'')])]))]
           started_world)) =
     [UpdateTimerState
        (JObj [(''name'', JStr ''Keynote''), (''speaker'', JUndefined), (''notes'', JUndefined),
               (''duration'', JUndefined), (''wrap_up_yellow'', JNum 60000),
               (''wrap_up_red'', JUndefined)])]"
  using timer_snapshot_fields [where w = started_world and h = 0
          and r = "JObj [(''data'',
             JObj [(''name'', JStr ''Keynote''), (''wrap_up_yellow'', JNum 60000)])]"
          and p = "JObj [(''timer_id'', JStr ''T2'')]"
          and rs = "JObj [(''data'', JObj [(''timer_id'', JStr ''T1'')])]"
          and pf = example_platform]
  by (simp add: started_world_facts well_formed_response_def)

text \<open>
  Claim C9. \<^verbatim>\<open>socketStart\<close> called with no instance, or with an instance that has no
  config, throws \<^verbatim>\<open>Error('Module instance required')\<close> to its caller at once, with the
  state untouched.
\<close>

theorem socketStart_requires_instance:
  "socketStart pf None w = Inl (Error ''Module instance required'')
   \<and> socketStart pf (Some (i\<lparr>config := None\<rparr>)) w = Inl (Error ''Module instance required'')
   \<and> step pf (Start None) w = (Some (Error ''Module instance required''), w)
   \<and> step pf (Start (Some (i\<lparr>config := None\<rparr>))) w =
       (Some (Error ''Module instance required''), w)"
  by (simp add: socketStart_def)

text \<open>
  Claim C10. The \<^verbatim>\<open>playback_status\<close> listener has no guard on \<^verbatim>\<open>timer_id\<close>: for every
  payload that can be destructured it issues one \<^verbatim>\<open>get_timer\<close> request with the payload's
  \<^verbatim>\<open>timer_id\<close> as params, also when that is null or otherwise falsy, where the second
  callback of the bootstrap chain issues none.
\<close>

theorem playback_status_no_null_guard:
  assumes "h < length (handles w)" and "\<not> nullish p"
  shows "get_timer_calls (new_effects w (snd (emit pf h (Push (PlaybackStatus p)) w))) =
           [JObj [(''timer_id'', js_get p ''timer_id'')]]
         \<and> (is_falsy (js_get p ''timer_id'') \<longrightarrow>
              get_timer_calls (new_effects w (status_then2 (js_get p ''timer_id'') w)) = [])"
  using assms
  by (simp add: emit_playback_status status_then2_def projection_defs)

theorem playback_status_no_null_guard_witness:
  "get_timer_calls
     (new_effects started_world
        (snd (emit example_platform 0
                (Push (PlaybackStatus (JObj [(''timer_id'', JNull), (''running'', JBool False)])))
                started_world))) = [JObj [(''timer_id'', JNull)]]
   \<and> get_timer_calls (new_effects started_world (status_then2 JNull started_world)) = []"
  using playback_status_no_null_guard [where w = started_world and h = 0
          and p = "JObj [(''timer_id'', JNull), (''running'', JBool False)]"
          and pf = example_platform]
  by (simp add: started_world_facts)

end
